theory Spec2Isabelle
  imports Complex_Main "HOL-Library.Log_Nat"
begin

section \<open>JavaScript values and objects\<close>

text \<open>
  The client passes instrument records around as plain JavaScript objects. A value is
  \<open>undefined\<close>, a boolean, a number or a string; \<open>JIso t\<close> stands for the string
  \<open>new Date(t).toISOString()\<close> of the clock reading \<open>t\<close> (milliseconds since the
  epoch): the rendering carries the milliseconds, so different readings give different
  strings. An object is a finite map from property names to values.
\<close>

datatype jsvalue = JUndefined | JBool bool | JNum rat | JStr string | JIso int

type_synonym jsobject = "string \<rightharpoonup> jsvalue"

section \<open>Numbers\<close>

text \<open>
  A JavaScript number is an IEEE 754 double; every finite double is a rational, and the
  model computes with the rationals the doubles denote. \<open>double_round x\<close> is the double
  nearest to \<open>x\<close>, the one with the even significand on a tie: \<open>ilog2 x\<close> is the
  exponent of \<open>x\<close> (the integer \<open>e\<close> with \<open>2^e \<le> x < 2^(e+1)\<close>), a double has 53
  significant bits, so that its unit in the last place is \<open>2^(e-52)\<close>, and no exponent
  is below \<open>-1022\<close>. (Overflow to infinity, at \<open>2^1024\<close>, is not part of the model; the
  panel multiplies numbers below 1 by 10.) The result of an arithmetic operation of
  JavaScript is the rounding of the exact result, so that \<open>a * b\<close> on doubles is
  \<open>double_round (a * b)\<close>. \<open>is_double x\<close> says that \<open>x\<close> is a double.
\<close>

definition ilog2 :: "rat \<Rightarrow> int" where
  "ilog2 x = (if 1 \<le> x then bitlen \<lfloor>x\<rfloor> - 1 else - bitlen (\<lceil>1 / x\<rceil> - 1))"

definition round_half_even :: "rat \<Rightarrow> int" where
  "round_half_even y =
     (let n = \<lfloor>y\<rfloor>; d = y - of_int n
      in if d < 1 / 2 then n else if 1 / 2 < d then n + 1 else if even n then n else n + 1)"

definition double_round :: "rat \<Rightarrow> rat" where
  "double_round x =
     (if x = 0 then 0
      else let ulp = 2 powi (max (ilog2 \<bar>x\<bar>) (- 1022) - 52)
           in sgn x * of_int (round_half_even (\<bar>x\<bar> / ulp)) * ulp)"

definition is_double :: "rat \<Rightarrow> bool" where
  "is_double x = (double_round x = x)"

section \<open>Number.prototype.toFixed\<close>

text \<open>
  \<open>digits n\<close> is the decimal representation of \<open>n\<close>. \<open>toFixed f x\<close> follows
  ECMAScript's \<open>x.toFixed(f)\<close> for \<open>\<bar>x\<bar> < 10^21\<close> (beyond that JavaScript switches to
  exponent notation; the panel only formats products \<open>Math.random() * 10\<close>): the sign,
  then the integer \<open>n\<close> for which \<open>n / 10^f - x\<close> is closest to zero, the larger one on a
  tie, padded with zeros to at least \<open>f + 1\<close> digits, with a point before the last
  \<open>f\<close> digits. The number formatted is the exact value of the double.
\<close>

fun digits :: "nat \<Rightarrow> string" where
  "digits n = (if n < 10 then [''0123456789'' ! n]
               else digits (n div 10) @ [''0123456789'' ! (n mod 10)])"

definition toFixed :: "nat \<Rightarrow> rat \<Rightarrow> string" where
  "toFixed f x =
     (let s = (if x < 0 then ''-'' else '''');
          n = nat \<lfloor>\<bar>x\<bar> * 10 ^ f + 1 / 2\<rfloor>;
          m = digits n;
          m = (if length m \<le> f then replicate (f + 1 - length m) (CHR ''0'') @ m else m);
          k = length m
      in if f = 0 then s @ m else s @ take (k - f) m @ ''.'' @ drop (k - f) m)"

section \<open>InstrumentPanel: the simulated session of one instrument\<close>

text \<open>
  The component keeps four pieces of state (\<open>useState\<close>); \<open>isConnected\<close> is the
  session state (\<open>True\<close> is Connected) and \<open>currentValue\<close> the last reading shown.
  A handler returns the new state and the toast it raises.
\<close>

record InstrumentPanel =
  isConnected :: bool
  currentValue :: string
  isMinimized :: bool
  position :: "int \<times> int"

datatype toast = toast_success string | toast_error string

definition useState_initial :: InstrumentPanel where
  "useState_initial =
     \<lparr>isConnected = False, currentValue = ''0.000'', isMinimized = False, position = (0, 0)\<rparr>"

text \<open>
  The handlers are closures over the \<open>instrument\<close> prop, the first argument here.
  \<open>handleMeasure\<close> also takes the value \<open>Math.random()\<close> returns when it is called,
  a double in \<open>[0, 1)\<close>; the reading is the double product \<open>Math.random() * 10\<close>.
\<close>

definition handleConnect :: "jsobject \<Rightarrow> InstrumentPanel \<Rightarrow> InstrumentPanel \<times> toast" where
  "handleConnect instrument p =
     (p\<lparr>isConnected := \<not> isConnected p\<rparr>,
      toast_success (if isConnected p then ''Disconnected'' else ''Connected''))"

definition handleMeasure :: "jsobject \<Rightarrow> rat \<Rightarrow> InstrumentPanel \<Rightarrow> InstrumentPanel \<times> toast" where
  "handleMeasure instrument random p =
     (if \<not> isConnected p then (p, toast_error ''Instrument not connected'')
      else (p\<lparr>currentValue := toFixed 3 (double_round (random * 10))\<rparr>, toast_success ''Measurement taken''))"

text \<open>
  The effect of the component, with dependency list \<open>[isConnected]\<close>: it sets
  \<open>isConnected\<close> to \<open>Math.random() > 0.3\<close> and installs the two-second interval.
  React runs it after the first render and again after every render in which
  \<open>isConnected\<close> has changed; a \<open>setIsConnected\<close> that stores the value already held
  changes nothing and the effect is not run again. \<open>useEffect_run\<close> takes the values
  \<open>Math.random()\<close> returns in order, one per run of the effect, and is \<open>None\<close> when
  they are used up before the state has settled. The interval's callback reads the
  \<open>isConnected\<close> of the render its effect belongs to, which is the state held once the
  effect has settled. The literal 0.3 of the source is the double nearest to 3/10; a
  double exceeds the one exactly when it exceeds the other, so the comparison is written
  with 3/10.
\<close>

fun useEffect_run :: "rat list \<Rightarrow> InstrumentPanel \<Rightarrow> InstrumentPanel option" where
  "useEffect_run [] p = None"
| "useEffect_run (random # rs) p =
     (let q = p\<lparr>isConnected := (random > 3 / 10)\<rparr>
      in if isConnected q = isConnected p then Some q else useEffect_run rs q)"

definition mount :: "rat list \<Rightarrow> InstrumentPanel option" where
  "mount rs = useEffect_run rs useState_initial"

text \<open>The callback of \<open>setInterval\<close>, called every 2000 ms with a fresh \<open>Math.random()\<close>.\<close>

definition interval_callback :: "jsobject \<Rightarrow> rat \<Rightarrow> InstrumentPanel \<Rightarrow> InstrumentPanel" where
  "interval_callback instrument random p =
     (if isConnected p then p\<lparr>currentValue := toFixed 3 (double_round (random * 10))\<rparr> else p)"

text \<open>
  What the full panel shows: the value with its unit label, and the info items (GPIB
  address, range, resolution, time of the last render, here the clock reading). The
  resolution label is given by its bytes in the source file, which holds 36 C3 82 C2 BD
  before " digits".
\<close>

definition DisplaySection :: "jsobject \<Rightarrow> InstrumentPanel \<Rightarrow> string \<times> string" where
  "DisplaySection instrument p = (currentValue p, ''V DC'')"

definition InfoSection :: "jsobject \<Rightarrow> int \<Rightarrow> jsvalue option \<times> string \<times> string \<times> int" where
  "InfoSection instrument now =
     (instrument ''gpibAddress'', ''Auto'',
      ''6'' @ [CHR 0xC3, CHR 0x82, CHR 0xC2, CHR 0xBD] @ '' digits'', now)"

section \<open>The client's instrument hooks\<close>

text \<open>
  An error caught from an axios call: \<open>error.code\<close> and \<open>error.response?.status\<close>,
  each absent or present. A request either resolves with the response's data or is
  rejected with such an error. The server is not part of the client: each hook takes
  what the server answers to its request as a function of that request.
\<close>

record axios_error =
  code :: "string option"
  response_status :: "int option"

datatype 'a promise = resolved 'a | rejected axios_error

text \<open>
  \<open>addInstrument\<close> posts the payload. \<open>now_id\<close>, \<open>now_created\<close> and
  \<open>now_updated\<close> are the three readings of the clock the fallback takes, in order:
  \<open>Date.now()\<close> for the id and one \<open>new Date()\<close> each for \<open>createdAt\<close> and
  \<open>updatedAt\<close>. In the object literal the payload is spread after \<open>id\<close> and before
  the two timestamps, so a later entry replaces an earlier one of the same name.
\<close>

definition addInstrument ::
  "(jsobject \<Rightarrow> jsobject promise) \<Rightarrow> int \<Rightarrow> int \<Rightarrow> int \<Rightarrow> jsobject \<Rightarrow> axios_error + jsobject" where
  "addInstrument post now_id now_created now_updated instrumentData =
     (case post instrumentData of
        resolved data \<Rightarrow> Inr data
      | rejected error \<Rightarrow>
          if code error = Some ''ERR_NETWORK'' \<or> response_status error = Some 404
          then Inr ([''id'' \<mapsto> JNum (of_int now_id)] ++ instrumentData
                    ++ [''createdAt'' \<mapsto> JIso now_created, ''updatedAt'' \<mapsto> JIso now_updated])
          else Inl error)"

text \<open>
  \<open>updateInstrument\<close> takes one object and splits it into its \<open>id\<close> property
  (\<open>undefined\<close> when there is none) and the rest, which it puts to the instrument's URL.
\<close>

definition updateInstrument ::
  "(jsvalue \<Rightarrow> jsobject \<Rightarrow> jsobject promise) \<Rightarrow> int \<Rightarrow> jsobject \<Rightarrow> axios_error + jsobject" where
  "updateInstrument put now variables =
     (let ident = (case variables ''id'' of None \<Rightarrow> JUndefined | Some v \<Rightarrow> v);
          instrumentData = variables(''id'' := None)
      in case put ident instrumentData of
           resolved data \<Rightarrow> Inr data
         | rejected error \<Rightarrow>
             if code error = Some ''ERR_NETWORK'' \<or> response_status error = Some 404
             then Inr ([''id'' \<mapsto> ident] ++ instrumentData ++ [''updatedAt'' \<mapsto> JIso now])
             else Inl error)"

definition deleteInstrument ::
  "(jsvalue \<Rightarrow> 'a promise) \<Rightarrow> jsvalue \<Rightarrow> axios_error + jsvalue" where
  "deleteInstrument delete ident =
     (case delete ident of
        resolved response \<Rightarrow> Inr ident
      | rejected error \<Rightarrow>
          if code error = Some ''ERR_NETWORK'' \<or> response_status error = Some 404
          then Inr ident
          else Inl error)"

text \<open>
  The query of \<open>useInstruments\<close>: the server's list, or one mock instrument when the
  server cannot be reached. The mock's description is "High precision 6\<onehalf> digit
  multimeter".
\<close>

definition mock_instrument :: "int \<Rightarrow> int \<Rightarrow> jsobject" where
  "mock_instrument now_created now_updated =
     [''id'' \<mapsto> JNum 1,
      ''name'' \<mapsto> JStr ''HP 34401A Multimeter'',
      ''type'' \<mapsto> JStr ''34401A'',
      ''gpibAddress'' \<mapsto> JStr ''22'',
      ''description'' \<mapsto> JStr (''High precision 6'' @ [CHR 0xC2, CHR 0xBD] @ '' digit multimeter''),
      ''autoConnect'' \<mapsto> JBool True,
      ''measurementType'' \<mapsto> JStr ''DC_VOLTAGE'',
      ''range'' \<mapsto> JStr ''AUTO'',
      ''resolution'' \<mapsto> JStr ''6.5'',
      ''createdAt'' \<mapsto> JIso now_created,
      ''updatedAt'' \<mapsto> JIso now_updated]"


text \<open>The form data the settings dialog starts from when it adds an instrument.\<close>

definition formData :: jsobject where
  "formData =
     [''name'' \<mapsto> JStr [],
      ''type'' \<mapsto> JStr ''34401A'',
      ''gpibAddress'' \<mapsto> JStr ''22'',
      ''description'' \<mapsto> JStr [],
      ''autoConnect'' \<mapsto> JBool False,
      ''measurementType'' \<mapsto> JStr ''DC_VOLTAGE'',
      ''range'' \<mapsto> JStr ''AUTO'',
      ''resolution'' \<mapsto> JStr ''6.5'']"

section \<open>Notions of the specification\<close>

text \<open>
  The number a decimal numeral denotes: the digits before and after the point, read in
  base ten, over the power of ten of the number of digits after the point.
\<close>

definition digit_value :: "char \<Rightarrow> nat" where
  "digit_value c = of_char c - 48"

definition digits_value :: "string \<Rightarrow> nat" where
  "digits_value s = foldl (\<lambda>a c. 10 * a + digit_value c) 0 s"

definition numeral_value :: "string \<Rightarrow> rat" where
  "numeral_value s =
     (let a = takeWhile (\<lambda>c. c \<noteq> CHR ''.'') s;
          b = drop 1 (dropWhile (\<lambda>c. c \<noteq> CHR ''.'') s)
      in of_nat (digits_value (a @ b)) / 10 ^ length b)"

text \<open>
  The constraints of the data model on a creation payload: a non-empty name, a type and
  a measurement type of their enumerations, a GPIB address that is an integer from 0 to
  30, a range that is \<open>AUTO\<close> or one of 0.1, 1, 10, 100 and 1000, a resolution among
  4.5, 5.5, 6.5 and 7.5, and, when present, a description that is text and an
  \<open>autoConnect\<close> that is a boolean. A number of the data model is accepted as a number
  and as the decimal string the settings form holds for it.
\<close>

definition gpibAddress_valid :: "jsvalue option \<Rightarrow> bool" where
  "gpibAddress_valid v =
     (case v of
        Some (JNum q) \<Rightarrow> q = of_int \<lfloor>q\<rfloor> \<and> 0 \<le> q \<and> q \<le> 30
      | Some (JStr s) \<Rightarrow> digits (digits_value s) = s \<and> digits_value s \<le> 30
      | _ \<Rightarrow> False)"

definition one_of :: "string list \<Rightarrow> rat list \<Rightarrow> jsvalue option \<Rightarrow> bool" where
  "one_of strings numbers v =
     (case v of
        Some (JStr s) \<Rightarrow> s \<in> set strings
      | Some (JNum q) \<Rightarrow> q \<in> set numbers
      | _ \<Rightarrow> False)"

definition valid_payload :: "jsobject \<Rightarrow> bool" where
  "valid_payload payload =
     ((case payload ''name'' of Some (JStr s) \<Rightarrow> s \<noteq> [] | _ \<Rightarrow> False)
      \<and> one_of [''34401A'', ''34410A'', ''34461A'', ''34465A'', ''custom''] [] (payload ''type'')
      \<and> gpibAddress_valid (payload ''gpibAddress'')
      \<and> (case payload ''description'' of None \<Rightarrow> True | Some (JStr s) \<Rightarrow> True | _ \<Rightarrow> False)
      \<and> (case payload ''autoConnect'' of None \<Rightarrow> True | Some (JBool b) \<Rightarrow> True | _ \<Rightarrow> False)
      \<and> one_of [''DC_VOLTAGE'', ''AC_VOLTAGE'', ''DC_CURRENT'', ''AC_CURRENT'',
                 ''RESISTANCE'', ''FREQUENCY'', ''PERIOD''] [] (payload ''measurementType'')
      \<and> one_of [''AUTO'', ''0.1'', ''1'', ''10'', ''100'', ''1000''] [1 / 10, 1, 10, 100, 1000]
            (payload ''range'')
      \<and> one_of [''4.5'', ''5.5'', ''6.5'', ''7.5''] [9 / 2, 11 / 2, 13 / 2, 15 / 2]
            (payload ''resolution''))"

text \<open>
  A reading conforms to the configured range when the range is \<open>AUTO\<close> or the reading
  does not exceed the range's full scale in volts.
\<close>

definition range_volts :: "jsvalue option \<Rightarrow> rat option" where
  "range_volts v =
     (if v = Some (JStr ''0.1'') then Some (1 / 10)
      else if v = Some (JStr ''1'') then Some 1
      else if v = Some (JStr ''10'') then Some 10
      else if v = Some (JStr ''100'') then Some 100
      else if v = Some (JStr ''1000'') then Some 1000
      else case v of Some (JNum q) \<Rightarrow> Some q | _ \<Rightarrow> None)"

definition within_range :: "jsobject \<Rightarrow> string \<Rightarrow> bool" where
  "within_range instrument reading =
     (case range_volts (instrument ''range'') of
        None \<Rightarrow> True
      | Some full_scale \<Rightarrow> numeral_value reading \<le> full_scale)"

section \<open>Evaluation and the shape of a formatted reading\<close>

declare digits.simps [simp del]

lemma digits_small: "n < 10 \<Longrightarrow> digits n = [''0123456789'' ! n]"
  by (subst digits.simps) simp

lemma digits_large: "\<not> n < 10 \<Longrightarrow> digits n = digits (n div 10) @ [''0123456789'' ! (n mod 10)]"
  by (subst digits.simps) simp

lemma floor_rat_numeral: "\<lfloor>numeral a / numeral b :: rat\<rfloor> = numeral a div numeral b"
  using floor_divide_of_int_eq [of "numeral a" "numeral b", where ?'a = rat] by simp

lemmas toFixed_eval = toFixed_def Let_def digits_small digits_large floor_rat_numeral

lemma bitlen_pos: "0 < x \<Longrightarrow> bitlen x = bitlen (x div 2) + 1"
  by (subst compute_bitlen) simp

lemma bitlen_nonpos: "x \<le> 0 \<Longrightarrow> bitlen x = 0"
  by (subst compute_bitlen) simp

lemma ceiling_rat_numeral: "\<lceil>numeral a / numeral b :: rat\<rceil> = - (- numeral a div numeral b)"
  using floor_divide_of_int_eq [of "- numeral a" "numeral b", where ?'a = rat]
  by (simp add: ceiling_def)

lemmas double_eval = double_round_def is_double_def ilog2_def round_half_even_def Let_def
  bitlen_pos bitlen_nonpos floor_rat_numeral ceiling_rat_numeral

lemma round_half_even_cases:
  "(round_half_even y = \<lfloor>y\<rfloor> \<and> y - of_int \<lfloor>y\<rfloor> \<le> 1 / 2)
   \<or> (round_half_even y = \<lfloor>y\<rfloor> + 1 \<and> 1 / 2 \<le> y - of_int \<lfloor>y\<rfloor>)"
  unfolding round_half_even_def Let_def by (cases "y - of_int \<lfloor>y\<rfloor> < 1 / 2") auto

lemma round_half_even_bounds:
  "of_int (round_half_even y) \<le> y + 1 / 2" "y - 1 / 2 \<le> of_int (round_half_even y)"
proof -
  have f: "of_int \<lfloor>y\<rfloor> \<le> y" "y < of_int \<lfloor>y\<rfloor> + 1"
    using floor_correct [of y] by simp_all
  from round_half_even_cases [of y]
  show "of_int (round_half_even y) \<le> y + 1 / 2"
  proof
    assume "round_half_even y = \<lfloor>y\<rfloor> \<and> y - of_int \<lfloor>y\<rfloor> \<le> 1 / 2"
    then have "(of_int (round_half_even y) :: rat) = of_int \<lfloor>y\<rfloor>" by simp
    then show ?thesis using f by linarith
  next
    assume a: "round_half_even y = \<lfloor>y\<rfloor> + 1 \<and> 1 / 2 \<le> y - of_int \<lfloor>y\<rfloor>"
    then have "(of_int (round_half_even y) :: rat) = of_int \<lfloor>y\<rfloor> + 1" by simp
    then show ?thesis using a by linarith
  qed
  from round_half_even_cases [of y]
  show "y - 1 / 2 \<le> of_int (round_half_even y)"
  proof
    assume a: "round_half_even y = \<lfloor>y\<rfloor> \<and> y - of_int \<lfloor>y\<rfloor> \<le> 1 / 2"
    then have "(of_int (round_half_even y) :: rat) = of_int \<lfloor>y\<rfloor>" by simp
    then show ?thesis using a by linarith
  next
    assume "round_half_even y = \<lfloor>y\<rfloor> + 1 \<and> 1 / 2 \<le> y - of_int \<lfloor>y\<rfloor>"
    then have "(of_int (round_half_even y) :: rat) = of_int \<lfloor>y\<rfloor> + 1" by simp
    then show ?thesis using f by linarith
  qed
qed

lemma round_half_even_nonneg: "0 \<le> y \<Longrightarrow> 0 \<le> round_half_even y"
  by (auto simp: round_half_even_def Let_def)

lemma round_half_even_le_floor: "round_half_even y \<le> \<lfloor>y + 1 / 2\<rfloor>"
proof -
  have "of_int (round_half_even y) \<le> y + 1 / 2" by (rule round_half_even_bounds)
  then show ?thesis by (simp add: le_floor_iff)
qed

lemma double_round_nonneg: "0 \<le> x \<Longrightarrow> 0 \<le> double_round x"
proof -
  assume x: "0 \<le> x"
  show ?thesis
  proof (cases "x = 0")
    case True
    then show ?thesis by (simp add: double_round_def)
  next
    case False
    let ?ulp = "2 powi (max (ilog2 \<bar>x\<bar>) (- 1022) - 52) :: rat"
    have u: "0 < ?ulp" by simp
    have "0 \<le> \<bar>x\<bar> / ?ulp" using u by simp
    then have "0 \<le> round_half_even (\<bar>x\<bar> / ?ulp)" by (rule round_half_even_nonneg)
    then have "0 \<le> (of_int (round_half_even (\<bar>x\<bar> / ?ulp)) :: rat) * ?ulp"
      using u by simp
    then show ?thesis using x False by (simp add: double_round_def Let_def)
  qed
qed

lemma double_round_error:
  assumes "0 < x"
  shows "\<bar>double_round x - x\<bar> \<le> 2 powi (max (ilog2 x) (- 1022) - 52) / 2"
proof -
  let ?ulp = "2 powi (max (ilog2 x) (- 1022) - 52) :: rat"
  let ?n = "round_half_even (x / ?ulp)"
  have u: "0 < ?ulp" by simp
  have d: "double_round x = of_int ?n * ?ulp"
    using assms by (simp add: double_round_def Let_def)
  have "of_int ?n \<le> x / ?ulp + 1 / 2" "x / ?ulp - 1 / 2 \<le> of_int ?n"
    by (rule round_half_even_bounds)+
  then have "of_int ?n * ?ulp \<le> (x / ?ulp + 1 / 2) * ?ulp" "(x / ?ulp - 1 / 2) * ?ulp \<le> of_int ?n * ?ulp"
    using u by (simp_all only: mult_le_cancel_right_pos)
  moreover have "(x / ?ulp + 1 / 2) * ?ulp = x + ?ulp / 2" "(x / ?ulp - 1 / 2) * ?ulp = x - ?ulp / 2"
    using u by (simp_all add: field_simps)
  ultimately have "of_int ?n * ?ulp \<le> x + ?ulp / 2" "x - ?ulp / 2 \<le> of_int ?n * ?ulp"
    by (simp_all only:)
  then show ?thesis unfolding d by (simp only: abs_le_iff) linarith
qed

lemma ilog2_le_3:
  assumes "0 < x" "x < 16"
  shows "ilog2 x \<le> 3"
proof (cases "1 \<le> x")
  case True
  have "\<lfloor>x\<rfloor> < 2 ^ 4" using assms by (simp add: floor_less_iff)
  then have "bitlen \<lfloor>x\<rfloor> \<le> 4" by (simp add: bitlen_le_iff_power)
  then show ?thesis using True by (simp add: ilog2_def)
next
  case False
  then show ?thesis using bitlen_nonneg [of "\<lceil>1 / x\<rceil> - 1"] by (simp add: ilog2_def)
qed

lemma ilog2_eq_3:
  assumes "8 \<le> x" "x < 16"
  shows "ilog2 x = 3"
proof -
  have "\<lfloor>x\<rfloor> < 2 ^ 4" using assms by (simp add: floor_less_iff)
  then have a: "bitlen \<lfloor>x\<rfloor> \<le> 4" by (simp add: bitlen_le_iff_power)
  have "8 \<le> \<lfloor>x\<rfloor>" using assms by (simp add: le_floor_iff)
  then have b: "4 \<le> bitlen \<lfloor>x\<rfloor>" by (simp add: bitlen_ge_iff_power)
  show ?thesis using a b assms by (simp add: ilog2_def)
qed

lemma ilog2_half:
  assumes "1 / 2 \<le> x" "x < 1"
  shows "ilog2 x = - 1"
proof -
  have "1 < 1 / x" "1 / x \<le> 2" using assms by (simp_all add: field_simps)
  then have "\<lceil>1 / x\<rceil> = 2" by (simp add: ceiling_eq_iff) 
  then show ?thesis using assms by (simp add: ilog2_def bitlen_pos bitlen_nonpos)
qed

lemma double_below_1:
  assumes "is_double r" "r < 1"
  shows "r \<le> 1 - 1 / 2 ^ 53"
proof (cases "1 / 2 \<le> r")
  case False
  then show ?thesis by simp
next
  case True
  then have pos: "0 < r" by simp
  have e: "ilog2 r = - 1" using True assms(2) by (rule ilog2_half)
  define n where "n = round_half_even (r / (1 / 2 ^ 53))"
  have "double_round r = of_int n * (1 / 2 ^ 53)"
    using pos e by (simp add: double_round_def Let_def n_def power_int_minus_divide)
  then have r: "r = of_int n / 2 ^ 53" using assms(1) by (simp add: is_double_def)
  then have "(of_int n :: rat) < 2 ^ 53" using assms(2) by (simp add: field_simps)
  then have "(of_int n :: rat) < of_int (2 ^ 53)" by simp
  then have "n < 2 ^ 53" by (simp only: of_int_less_iff)
  then have "n \<le> 2 ^ 53 - 1" by simp
  then have "(of_int n :: rat) \<le> of_int (2 ^ 53 - 1)" by (simp only: of_int_le_iff)
  then have "(of_int n :: rat) / 2 ^ 53 \<le> (2 ^ 53 - 1) / 2 ^ 53"
    by (simp add: divide_right_mono)
  then show ?thesis unfolding r by (simp add: field_simps)
qed

lemma double_round_below_10:
  assumes "0 \<le> x" "x \<le> 10 - 10 / 2 ^ 53"
  shows "double_round x < 10"
proof (cases "x < 8")
  case True
  show ?thesis
  proof (cases "x = 0")
    case True
    then show ?thesis by (simp add: double_round_def)
  next
    case False
    then have pos: "0 < x" using assms(1) by simp
    have "ilog2 x \<le> 3" using pos True by (intro ilog2_le_3) simp_all
    then have "max (ilog2 x) (- 1022) - 52 \<le> - 49" by simp
    then have "(2::rat) powi (max (ilog2 x) (- 1022) - 52) \<le> 2 powi (- 49)"
      by (intro power_int_increasing) simp_all
    then have "(2::rat) powi (max (ilog2 x) (- 1022) - 52) / 2 \<le> 1"
      by (simp add: power_int_minus_divide)
    then have "\<bar>double_round x - x\<bar> \<le> 1" using double_round_error [OF pos] by linarith
    then show ?thesis using True by linarith
  qed
next
  case False
  then have x8: "8 \<le> x" by simp
  have x16: "x < 16" using assms(2) by simp
  have pos: "0 < x" using x8 by simp
  have e: "ilog2 x = 3" using x8 x16 by (rule ilog2_eq_3)
  define n where "n = round_half_even (x / (1 / 2 ^ 49))"
  have d: "double_round x = of_int n * (1 / 2 ^ 49)"
    using pos e by (simp add: double_round_def Let_def n_def power_int_minus_divide)
  have "x / (1 / 2 ^ 49) + 1 / 2 < 10 * 2 ^ 49" using assms(2) by (simp add: field_simps)
  then have "\<lfloor>x / (1 / 2 ^ 49) + 1 / 2\<rfloor> < 10 * 2 ^ 49" by (simp add: floor_less_iff)
  then have "n < 10 * 2 ^ 49" using round_half_even_le_floor [of "x / (1 / 2 ^ 49)"]
    unfolding n_def by linarith
  then have "(of_int n :: rat) < of_int (10 * 2 ^ 49)" by (simp only: of_int_less_iff)
  then show ?thesis unfolding d by (simp add: field_simps)
qed

lemma Math_random_times_10:
  assumes "is_double random" "0 \<le> random" "random < 1"
  shows "0 \<le> double_round (random * 10)" "double_round (random * 10) < 10"
proof -
  show "0 \<le> double_round (random * 10)" using assms(2) by (intro double_round_nonneg) simp
  have "random \<le> 1 - 1 / 2 ^ 53" using assms(1,3) by (rule double_below_1)
  then have "random * 10 \<le> 10 - 10 / 2 ^ 53" by simp
  then show "double_round (random * 10) < 10" using assms(2) by (intro double_round_below_10) simp_all
qed

lemma nth_digit_mem: "d < 10 \<Longrightarrow> ''0123456789'' ! d \<in> set ''0123456789''"
  by (rule nth_mem) simp

lemma digit_value_nth: "d < 10 \<Longrightarrow> digit_value (''0123456789'' ! d) = d"
proof -
  assume "d < 10"
  then have "d \<in> {0, 1, 2, 3, 4, 5, 6, 7, 8, 9}" by auto
  then show ?thesis by (auto simp: digit_value_def)
qed

lemma digits_nonempty: "digits n \<noteq> []"
  by (subst digits.simps) simp

lemma digits_set: "set (digits n) \<subseteq> set ''0123456789''"
proof (induction n rule: digits.induct)
  case (1 n)
  show ?case
  proof (cases "n < 10")
    case True
    then show ?thesis using nth_digit_mem [of n] by (simp add: digits_small)
  next
    case False
    then show ?thesis using 1 nth_digit_mem [of "n mod 10"]
      by (simp add: digits_large)
  qed
qed

lemma digits_value_snoc: "digits_value (s @ [c]) = 10 * digits_value s + digit_value c"
  by (simp add: digits_value_def)

lemma digits_value_digits: "digits_value (digits n) = n"
proof (induction n rule: digits.induct)
  case (1 n)
  show ?case
  proof (cases "n < 10")
    case True
    then show ?thesis by (simp add: digits_small digits_value_def digit_value_nth)
  next
    case False
    then show ?thesis using 1
      by (simp add: digits_large digits_value_snoc digit_value_nth)
  qed
qed

lemma digits_value_zeros: "digits_value (replicate k (CHR ''0'') @ m) = digits_value m"
proof -
  have "foldl (\<lambda>a c. 10 * a + digit_value c) 0 (replicate k (CHR ''0'')) = 0"
    by (induction k) (simp_all add: digit_value_def)
  then show ?thesis by (simp add: digits_value_def)
qed

lemma numeral_value_point:
  assumes "CHR ''.'' \<notin> set a"
  shows "numeral_value (a @ CHR ''.'' # b) = of_nat (digits_value (a @ b)) / 10 ^ length b"
proof -
  have "takeWhile (\<lambda>c. c \<noteq> CHR ''.'') (a @ CHR ''.'' # b) = a"
    using assms by (subst takeWhile_append2) auto
  moreover have "dropWhile (\<lambda>c. c \<noteq> CHR ''.'') (a @ CHR ''.'' # b) = CHR ''.'' # b"
    using assms by (subst dropWhile_append2) auto
  ultimately show ?thesis by (simp add: numeral_value_def)
qed

lemma toFixed_3_shape:
  assumes "0 \<le> x"
  shows "\<exists>a b. toFixed 3 x = a @ ''.'' @ b \<and> a \<noteq> [] \<and> length b = 3
           \<and> set (a @ b) \<subseteq> set ''0123456789''
           \<and> digits_value (a @ b) = nat \<lfloor>x * 1000 + 1 / 2\<rfloor>"
proof -
  define n where "n = nat \<lfloor>x * 1000 + 1 / 2\<rfloor>"
  define m where "m = (if length (digits n) \<le> 3
      then replicate (3 + 1 - length (digits n)) (CHR ''0'') @ digits n else digits n)"
  define k where "k = length m"
  have k4: "4 \<le> k"
    by (auto simp: k_def m_def)
  have tf: "toFixed 3 x = take (k - 3) m @ ''.'' @ drop (k - 3) m"
    using assms by (simp add: toFixed_def Let_def n_def m_def k_def)
  have mset: "set m \<subseteq> set ''0123456789''"
    using digits_set [of n] by (auto simp: m_def)
  have mval: "digits_value m = n"
    by (simp add: m_def digits_value_zeros digits_value_digits)
  have "take (k - 3) m \<noteq> []" using k4 by (auto simp: k_def)
  moreover have "length (drop (k - 3) m) = 3" using k4 by (simp add: k_def)
  moreover have "take (k - 3) m @ drop (k - 3) m = m" by simp
  ultimately show ?thesis using tf mset mval unfolding n_def by metis
qed

lemma toFixed_3_value:
  assumes "0 \<le> x"
  shows "numeral_value (toFixed 3 x) = of_nat (nat \<lfloor>x * 1000 + 1 / 2\<rfloor>) / 1000"
proof -
  obtain a b where ab: "toFixed 3 x = a @ ''.'' @ b" "length b = 3"
      "set (a @ b) \<subseteq> set ''0123456789''" "digits_value (a @ b) = nat \<lfloor>x * 1000 + 1 / 2\<rfloor>"
    using toFixed_3_shape [OF assms] by blast
  have "CHR ''.'' \<notin> set a" using ab(3) by auto
  then show ?thesis using ab by (simp add: numeral_value_point)
qed

lemma rounded_bounds:
  assumes "0 \<le> (x::rat)"
  shows "x - 1 / 2000 < of_nat (nat \<lfloor>x * 1000 + 1 / 2\<rfloor>) / 1000"
    and "of_nat (nat \<lfloor>x * 1000 + 1 / 2\<rfloor>) / 1000 \<le> x + 1 / 2000"
proof -
  have nn: "0 \<le> \<lfloor>x * 1000 + 1 / 2\<rfloor>" using assms by simp
  have eq: "(of_nat (nat \<lfloor>x * 1000 + 1 / 2\<rfloor>) :: rat) = of_int \<lfloor>x * 1000 + 1 / 2\<rfloor>"
    using nn by simp
  have "of_int \<lfloor>x * 1000 + 1 / 2\<rfloor> \<le> x * 1000 + 1 / 2" by (rule of_int_floor_le)
  then show "of_nat (nat \<lfloor>x * 1000 + 1 / 2\<rfloor>) / 1000 \<le> x + 1 / 2000" using eq by simp
  have "x * 1000 + 1 / 2 < of_int \<lfloor>x * 1000 + 1 / 2\<rfloor> + 1"
    using floor_correct [of "x * 1000 + 1 / 2"] by simp
  then show "x - 1 / 2000 < of_nat (nat \<lfloor>x * 1000 + 1 / 2\<rfloor>) / 1000" using eq by simp
qed

lemma rounded_below_10:
  assumes "0 \<le> (x::rat)" "x < 10"
  shows "nat \<lfloor>x * 1000 + 1 / 2\<rfloor> \<le> 10000"
proof -
  have "x * 1000 + 1 / 2 < 10001" using assms by simp
  then have "\<lfloor>x * 1000 + 1 / 2\<rfloor> < 10001" by (simp add: floor_less_iff)
  then show ?thesis by linarith
qed

lemma scenario_payload_valid:
  "valid_payload [''name'' \<mapsto> JStr ''DMM1'', ''type'' \<mapsto> JStr ''34401A'',
     ''gpibAddress'' \<mapsto> JNum 22, ''measurementType'' \<mapsto> JStr ''DC_VOLTAGE'',
     ''range'' \<mapsto> JStr ''AUTO'', ''resolution'' \<mapsto> JNum (13 / 2)]"
  by (simp add: valid_payload_def gpibAddress_valid_def one_of_def)

lemma ilog2_quarter:
  assumes "1 / 4 \<le> x" "x < 1 / 2"
  shows "ilog2 x = - 2"
proof -
  have "2 < 1 / x" "1 / x \<le> 4" using assms by (simp_all add: field_simps)
  then have "2 < \<lceil>1 / x\<rceil>" "\<lceil>1 / x\<rceil> \<le> 4" by (simp_all add: less_ceiling_iff ceiling_le_iff)
  then have "\<lceil>1 / x\<rceil> - 1 = 2 \<or> \<lceil>1 / x\<rceil> - 1 = 3" by linarith
  then have "bitlen (\<lceil>1 / x\<rceil> - 1) = 2" by (auto simp: bitlen_pos bitlen_nonpos)
  then show ?thesis using assms by (simp add: ilog2_def)
qed

lemma double_round_0_3: "double_round (3 / 10) = 5404319552844595 / 2 ^ 54"
  by (simp add: double_eval)

lemma greater_0_3:
  assumes "is_double random"
  shows "(double_round (3 / 10) < random) = (3 / 10 < random)"
proof
  assume "3 / 10 < random"
  then show "double_round (3 / 10) < random" unfolding double_round_0_3 by simp
next
  assume g: "double_round (3 / 10) < random"
  show "3 / 10 < random"
  proof (cases "random < 1 / 2")
    case False
    then show ?thesis by simp
  next
    case True
    have q: "1 / 4 \<le> random" using g unfolding double_round_0_3 by simp
    then have pos: "0 < random" by simp
    have e: "ilog2 random = - 2" using q True by (rule ilog2_quarter)
    define n where "n = round_half_even (random / (1 / 2 ^ 54))"
    have "double_round random = of_int n * (1 / 2 ^ 54)"
      using pos e by (simp add: double_round_def Let_def n_def power_int_minus_divide)
    then have r: "random = of_int n / 2 ^ 54" using assms by (simp add: is_double_def)
    have "(5404319552844595 :: rat) < of_int n"
      using g unfolding double_round_0_3 r by (simp add: field_simps)
    then have "(of_int 5404319552844595 :: rat) < of_int n" by simp
    then have "5404319552844595 < n" by (simp only: of_int_less_iff)
    then have "5404319552844596 \<le> n" by simp
    then have "(of_int 5404319552844596 :: rat) \<le> of_int n" by (simp only: of_int_le_iff)
    then have "(5404319552844596 :: rat) / 2 ^ 54 \<le> of_int n / 2 ^ 54"
      by (simp add: divide_right_mono)
    then show ?thesis unfolding r by simp
  qed
qed

lemma useEffect_run_result:
  "useEffect_run rs p = Some q \<Longrightarrow>
     q = p\<lparr>isConnected := isConnected q\<rparr> \<and> (\<exists>random \<in> set rs. isConnected q = (random > 3 / 10))"
proof (induction rs arbitrary: p)
  case Nil
  then show ?case by simp
next
  case (Cons r rs)
  show ?case
  proof (cases "(r > 3 / 10) = isConnected p")
    case True
    then show ?thesis using Cons.prems by (auto simp: Let_def)
  next
    case False
    then have "useEffect_run rs (p\<lparr>isConnected := (r > 3 / 10)\<rparr>) = Some q"
      using Cons.prems by (auto simp: Let_def)
    from Cons.IH [OF this] show ?thesis by auto
  qed
qed

lemma useEffect_run_settles:
  "(r1 > 3 / 10) = (r2 > 3 / 10) \<Longrightarrow>
     useEffect_run (r1 # r2 # rs) p = Some (p\<lparr>isConnected := (r1 > 3 / 10)\<rparr>)"
  by (auto simp: Let_def)

lemma formatted_reading:
  assumes "0 \<le> x" "x < 10"
  shows "\<exists>a b. toFixed 3 x = a @ ''.'' @ b \<and> a \<noteq> [] \<and> length b = 3
           \<and> set (a @ b) \<subseteq> set ''0123456789''"
    and "0 \<le> numeral_value (toFixed 3 x)"
    and "numeral_value (toFixed 3 x) \<le> 10"
    and "\<bar>numeral_value (toFixed 3 x) - x\<bar> \<le> 1 / 2000"
proof -
  show "\<exists>a b. toFixed 3 x = a @ ''.'' @ b \<and> a \<noteq> [] \<and> length b = 3
           \<and> set (a @ b) \<subseteq> set ''0123456789''"
    using toFixed_3_shape [OF assms(1)] by blast
  have v: "numeral_value (toFixed 3 x) = of_nat (nat \<lfloor>x * 1000 + 1 / 2\<rfloor>) / 1000"
    by (rule toFixed_3_value [OF assms(1)])
  show "0 \<le> numeral_value (toFixed 3 x)" unfolding v by simp
  have "(of_nat (nat \<lfloor>x * 1000 + 1 / 2\<rfloor>) :: rat) \<le> of_nat 10000"
    using rounded_below_10 [OF assms] by (simp only: of_nat_le_iff)
  then show "numeral_value (toFixed 3 x) \<le> 10" unfolding v by simp
  have "x - 1 / 2000 < numeral_value (toFixed 3 x)"
    unfolding v by (rule rounded_bounds [OF assms(1)])
  moreover have "numeral_value (toFixed 3 x) \<le> x + 1 / 2000"
    unfolding v by (rule rounded_bounds [OF assms(1)])
  ultimately show "\<bar>numeral_value (toFixed 3 x) - x\<bar> \<le> 1 / 2000"
    by linarith
qed

lemma fallback_record_lookup:
  "([''id'' \<mapsto> i] ++ d ++ [''createdAt'' \<mapsto> c, ''updatedAt'' \<mapsto> u]) k =
     (if k = ''updatedAt'' then Some u
      else if k = ''createdAt'' then Some c
      else case d k of Some v \<Rightarrow> Some v | None \<Rightarrow> if k = ''id'' then Some i else None)"
  by (simp add: map_add_def split: option.split)

lemma update_record_lookup:
  "([''id'' \<mapsto> i] ++ v(''id'' := None) ++ [''updatedAt'' \<mapsto> u]) k =
     (if k = ''updatedAt'' then Some u else if k = ''id'' then Some i else v k)"
  by (simp add: map_add_def split: option.split)

lemma addInstrument_fallback:
  assumes "post instrumentData = rejected error"
    and "code error = Some ''ERR_NETWORK'' \<or> response_status error = Some 404"
  shows "addInstrument post now_id now_created now_updated instrumentData =
     Inr ([''id'' \<mapsto> JNum (of_int now_id)] ++ instrumentData
          ++ [''createdAt'' \<mapsto> JIso now_created, ''updatedAt'' \<mapsto> JIso now_updated])"
  using assms unfolding addInstrument_def by (simp del: map_add_upd)

lemma updateInstrument_fallback:
  assumes "put (case variables ''id'' of None \<Rightarrow> JUndefined | Some v \<Rightarrow> v) (variables(''id'' := None))
      = rejected error"
    and "code error = Some ''ERR_NETWORK'' \<or> response_status error = Some 404"
  shows "updateInstrument put now variables =
     Inr ([''id'' \<mapsto> (case variables ''id'' of None \<Rightarrow> JUndefined | Some v \<Rightarrow> v)]
          ++ variables(''id'' := None) ++ [''updatedAt'' \<mapsto> JIso now])"
  using assms unfolding updateInstrument_def Let_def by (simp del: map_add_upd)

section \<open>Properties\<close>




text \<open>
  C2, as stated, fails: a panel mounted with \<open>Math.random()\<close> returning 0.5 is
  Connected without any connect, and a measure on it succeeds and stores a reading.
\<close>

theorem measure_before_connect_counterexample:
  "mount [1 / 2, 1 / 2] = Some (useState_initial\<lparr>isConnected := True\<rparr>)
   \<and> handleMeasure (mock_instrument 0 0) (1 / 4) (useState_initial\<lparr>isConnected := True\<rparr>)
     = (useState_initial\<lparr>isConnected := True, currentValue := ''2.500''\<rparr>,
        toast_success ''Measurement taken'')"
proof -
  have d: "double_round (5 / 2) = 5 / 2" by (simp add: double_eval)
  have t: "toFixed 3 (5 / 2) = ''2.500''" by (simp add: toFixed_eval)
  show ?thesis
    by (simp add: mount_def handleMeasure_def useState_initial_def d t)
qed

text \<open>
  C2, amended. For every instrument, measure succeeds exactly when the session is
  currently Connected: it then takes a reading, stores it as the value shown and reports
  "Measurement taken"; when the session is not Connected it reports the error
  "Instrument not connected" and changes nothing. In the state the panel is created in,
  measure fails. Once the effect has run on mount, before any connect, measure succeeds
  when the simulated state is Connected and fails when it is Disconnected.
\<close>

theorem measure_by_session_state:
  "handleMeasure instrument random p
     = (if isConnected p
        then (p\<lparr>currentValue := toFixed 3 (double_round (random * 10))\<rparr>,
              toast_success ''Measurement taken'')
        else (p, toast_error ''Instrument not connected''))
   \<and> ((\<exists>q msg. handleMeasure instrument random p = (q, toast_success msg)) = isConnected p)
   \<and> handleMeasure instrument random useState_initial
     = (useState_initial, toast_error ''Instrument not connected'')
   \<and> (first > 3 / 10 \<and> second > 3 / 10 \<longrightarrow>
        (\<exists>q. mount (first # second # rest) = Some q
           \<and> handleMeasure instrument random q
             = (q\<lparr>currentValue := toFixed 3 (double_round (random * 10))\<rparr>,
                toast_success ''Measurement taken'')))
   \<and> (\<not> first > 3 / 10 \<longrightarrow>
        (\<exists>q. mount (first # rest) = Some q
           \<and> handleMeasure instrument random q = (q, toast_error ''Instrument not connected'')))"
proof (intro conjI impI)
  show "handleMeasure instrument random p
     = (if isConnected p
        then (p\<lparr>currentValue := toFixed 3 (double_round (random * 10))\<rparr>,
              toast_success ''Measurement taken'')
        else (p, toast_error ''Instrument not connected''))"
    by (simp add: handleMeasure_def)
  show "(\<exists>q msg. handleMeasure instrument random p = (q, toast_success msg)) = isConnected p"
    by (simp add: handleMeasure_def)
  show "handleMeasure instrument random useState_initial
     = (useState_initial, toast_error ''Instrument not connected'')"
    by (simp add: handleMeasure_def useState_initial_def)
  {
    assume "first > 3 / 10 \<and> second > 3 / 10"
    then have "mount (first # second # rest) = Some (useState_initial\<lparr>isConnected := True\<rparr>)"
      by (simp add: mount_def Let_def useState_initial_def)
    then show "\<exists>q. mount (first # second # rest) = Some q
           \<and> handleMeasure instrument random q
             = (q\<lparr>currentValue := toFixed 3 (double_round (random * 10))\<rparr>,
                toast_success ''Measurement taken'')"
      by (simp add: handleMeasure_def)
  }
  {
    assume "\<not> first > 3 / 10"
    then have "mount (first # rest) = Some useState_initial"
      by (simp add: mount_def Let_def useState_initial_def)
    then show "\<exists>q. mount (first # rest) = Some q
           \<and> handleMeasure instrument random q = (q, toast_error ''Instrument not connected'')"
      by (simp add: handleMeasure_def useState_initial_def)
  }
qed

theorem measure_by_session_state_witness:
  "handleMeasure (mock_instrument 0 0) (1 / 4) (useState_initial\<lparr>isConnected := True\<rparr>)
     = (useState_initial\<lparr>isConnected := True, currentValue := ''2.500''\<rparr>,
        toast_success ''Measurement taken'')
   \<and> handleMeasure (mock_instrument 0 0) (1 / 4) useState_initial
     = (useState_initial, toast_error ''Instrument not connected'')
   \<and> (1 / 2 :: rat) > 3 / 10
   \<and> mount [1 / 2, 1 / 2] = Some (useState_initial\<lparr>isConnected := True\<rparr>)"
proof -
  have d: "double_round (5 / 2) = 5 / 2" by (simp add: double_eval)
  have t: "toFixed 3 (5 / 2) = ''2.500''" by (simp add: toFixed_eval)
  have m: "mount [1 / 2, 1 / 2] = Some (useState_initial\<lparr>isConnected := True\<rparr>)"
    by (simp add: mount_def useState_initial_def)
  show ?thesis
    using measure_by_session_state [where instrument = "mock_instrument 0 0" and random = "1 / 4"
        and p = "useState_initial\<lparr>isConnected := True\<rparr>"
        and first = "1 / 2" and second = "1 / 2" and rest = "[]"]
      measure_by_session_state [where instrument = "mock_instrument 0 0" and random = "1 / 4"
        and p = useState_initial
        and first = "1 / 2" and second = "1 / 2" and rest = "[]"]
    by (simp add: d t m useState_initial_def)
qed

text \<open>
  C3, as stated, fails: for a connected instrument configured for resistance on the 0.1
  range, a measure with \<open>Math.random()\<close> returning 0.5 succeeds and shows "5.000" with
  the unit "V DC": fifty times the full scale of the configured range, in volts.
\<close>

theorem measure_conformance_counterexample:
  "snd (handleMeasure ((mock_instrument 0 0)(''measurementType'' \<mapsto> JStr ''RESISTANCE'', ''range'' \<mapsto> JStr ''0.1''))
        (1 / 2) (useState_initial\<lparr>isConnected := True\<rparr>)) = toast_success ''Measurement taken''
   \<and> DisplaySection ((mock_instrument 0 0)(''measurementType'' \<mapsto> JStr ''RESISTANCE'', ''range'' \<mapsto> JStr ''0.1''))
        (fst (handleMeasure ((mock_instrument 0 0)(''measurementType'' \<mapsto> JStr ''RESISTANCE'', ''range'' \<mapsto> JStr ''0.1''))
           (1 / 2) (useState_initial\<lparr>isConnected := True\<rparr>))) = (''5.000'', ''V DC'')
   \<and> \<not> within_range ((mock_instrument 0 0)(''measurementType'' \<mapsto> JStr ''RESISTANCE'', ''range'' \<mapsto> JStr ''0.1''))
        (currentValue (fst (handleMeasure ((mock_instrument 0 0)(''measurementType'' \<mapsto> JStr ''RESISTANCE'', ''range'' \<mapsto> JStr ''0.1''))
           (1 / 2) (useState_initial\<lparr>isConnected := True\<rparr>))))"
proof -
  have d: "double_round 5 = 5" by (simp add: double_eval)
  have t: "toFixed 3 5 = ''5.000''" by (simp add: toFixed_eval)
  have v: "numeral_value ''5.000'' = 5"
    by (simp add: numeral_value_def digits_value_def digit_value_def)
  show ?thesis
    by (simp add: handleMeasure_def useState_initial_def DisplaySection_def
        within_range_def range_volts_def d t v)
qed

text \<open>
  C3, amended. For every instrument whose session is Connected, a measure succeeds with
  "Measurement taken" and updates the session's last value to the reading it takes,
  which is \<open>Math.random() * 10\<close> with three decimals, whatever the instrument's
  measurement type, range and resolution. The panel shows it with the fixed unit label
  "V DC" (so a \<open>DC_VOLTAGE\<close> reading is shown in volts), next to the fixed range
  label "Auto", the fixed resolution label and the time of the render; the handler gives
  back nothing but the new state and the toast.
\<close>

theorem measure_ignores_configuration:
  assumes "isConnected p"
  shows "handleMeasure instrument random p
           = (p\<lparr>currentValue := toFixed 3 (double_round (random * 10))\<rparr>,
              toast_success ''Measurement taken'')
     \<and> handleMeasure instrument random p = handleMeasure instrument' random p
     \<and> DisplaySection instrument (fst (handleMeasure instrument random p))
           = (toFixed 3 (double_round (random * 10)), ''V DC'')
     \<and> snd (InfoSection instrument now) = snd (InfoSection instrument' now)
     \<and> fst (snd (InfoSection instrument now)) = ''Auto''"
  using assms by (simp add: handleMeasure_def DisplaySection_def InfoSection_def)

theorem measure_ignores_configuration_witness:
  "isConnected (useState_initial\<lparr>isConnected := True\<rparr>)
   \<and> handleMeasure (mock_instrument 0 0) (1 / 4) (useState_initial\<lparr>isConnected := True\<rparr>)
       = (useState_initial\<lparr>isConnected := True, currentValue := ''2.500''\<rparr>,
          toast_success ''Measurement taken'')
   \<and> DisplaySection (mock_instrument 0 0)
         (fst (handleMeasure (mock_instrument 0 0) (1 / 4) (useState_initial\<lparr>isConnected := True\<rparr>)))
       = (''2.500'', ''V DC'')"
proof -
  have h: "isConnected (useState_initial\<lparr>isConnected := True\<rparr>)" by simp
  have d: "double_round (5 / 2) = 5 / 2" by (simp add: double_eval)
  have t: "toFixed 3 (5 / 2) = ''2.500''" by (simp add: toFixed_eval)
  show ?thesis
    using measure_ignores_configuration [OF h, where instrument = "mock_instrument 0 0"
        and instrument' = "mock_instrument 0 0" and random = "1 / 4" and now = 0]
    by (simp add: d t useState_initial_def DisplaySection_def)
qed

text \<open>
  C4, as stated, fails: when the server answers 404 for an id it does not know, delete
  reports success with that id and update reports success with a synthesized record.
\<close>

theorem not_found_counterexample:
  "deleteInstrument
      (\<lambda>ident. rejected \<lparr>code = Some ''ERR_BAD_REQUEST'', response_status = Some 404\<rparr> :: unit promise)
      (JNum 42) = Inr (JNum 42)
   \<and> \<not> isl (updateInstrument
      (\<lambda>ident data. rejected \<lparr>code = Some ''ERR_BAD_REQUEST'', response_status = Some 404\<rparr>)
      1000 [''id'' \<mapsto> JNum 42, ''name'' \<mapsto> JStr ''DMM1''])
   \<and> projr (updateInstrument
      (\<lambda>ident data. rejected \<lparr>code = Some ''ERR_BAD_REQUEST'', response_status = Some 404\<rparr>)
      1000 [''id'' \<mapsto> JNum 42, ''name'' \<mapsto> JStr ''DMM1'']) ''name'' = Some (JStr ''DMM1'')"
  by (simp add: deleteInstrument_def updateInstrument_def)

text \<open>
  C4, amended. For every id the server does not know, so that it answers 404, the
  client's delete and update do not fail: delete returns the id and update returns a
  record with that id and a fresh \<open>updatedAt\<close>. Connect and measure never consult the
  store: they act on the panel alike for every instrument object. (The client has no get
  operation by id.)
\<close>

theorem unknown_id_reports_success:
  assumes "response_status error = Some 404"
  shows "(delete ident = rejected error \<longrightarrow> deleteInstrument delete ident = Inr ident)
     \<and> (put (case variables ''id'' of None \<Rightarrow> JUndefined | Some v \<Rightarrow> v) (variables(''id'' := None))
           = rejected error \<longrightarrow>
         (\<exists>r. updateInstrument put now variables = Inr r
            \<and> r ''id'' = Some (case variables ''id'' of None \<Rightarrow> JUndefined | Some v \<Rightarrow> v)
            \<and> r ''updatedAt'' = Some (JIso now)))
     \<and> handleConnect instrument p = handleConnect Map.empty p
     \<and> handleMeasure instrument random p = handleMeasure Map.empty random p"
  using assms
  by (simp add: deleteInstrument_def updateInstrument_def handleConnect_def handleMeasure_def
      Let_def map_add_def)

theorem unknown_id_reports_success_witness:
  "response_status \<lparr>code = Some ''ERR_BAD_REQUEST'', response_status = Some 404\<rparr> = Some 404
   \<and> deleteInstrument
      (\<lambda>ident. rejected \<lparr>code = Some ''ERR_BAD_REQUEST'', response_status = Some 404\<rparr> :: unit promise)
      (JNum 42) = Inr (JNum 42)
   \<and> (\<exists>r. updateInstrument
      (\<lambda>ident data. rejected \<lparr>code = Some ''ERR_BAD_REQUEST'', response_status = Some 404\<rparr>)
      1000 [''id'' \<mapsto> JNum 42, ''name'' \<mapsto> JStr ''DMM1''] = Inr r \<and> r ''id'' = Some (JNum 42))"
proof -
  have h: "response_status \<lparr>code = Some ''ERR_BAD_REQUEST'', response_status = Some 404\<rparr> = Some 404"
    by simp
  show ?thesis
    using unknown_id_reports_success [OF h,
        where delete = "\<lambda>ident. rejected \<lparr>code = Some ''ERR_BAD_REQUEST'', response_status = Some 404\<rparr> :: unit promise"
        and ident = "JNum 42"
        and put = "\<lambda>ident data. rejected \<lparr>code = Some ''ERR_BAD_REQUEST'', response_status = Some 404\<rparr>"
        and variables = "[''id'' \<mapsto> JNum 42, ''name'' \<mapsto> JStr ''DMM1'']" and now = 1000
        and instrument = Map.empty and p = useState_initial and random = 0]
    by auto
qed




text \<open>
  C6, as stated, fails: with the server unreachable, an update of instrument 1 that
  supplies only an out-of-enumeration measurement type succeeds; the record it returns
  has that measurement type and no \<open>createdAt\<close>, although the instrument has one, and the
  merge of the supplied field onto the instrument would be invalid.
\<close>

theorem update_counterexample:
  "\<not> isl (updateInstrument (\<lambda>ident data. rejected \<lparr>code = Some ''ERR_NETWORK'', response_status = None\<rparr>)
        1000 [''id'' \<mapsto> JNum 1, ''measurementType'' \<mapsto> JStr ''BOGUS''])
   \<and> projr (updateInstrument (\<lambda>ident data. rejected \<lparr>code = Some ''ERR_NETWORK'', response_status = None\<rparr>)
        1000 [''id'' \<mapsto> JNum 1, ''measurementType'' \<mapsto> JStr ''BOGUS'']) ''measurementType''
       = Some (JStr ''BOGUS'')
   \<and> projr (updateInstrument (\<lambda>ident data. rejected \<lparr>code = Some ''ERR_NETWORK'', response_status = None\<rparr>)
        1000 [''id'' \<mapsto> JNum 1, ''measurementType'' \<mapsto> JStr ''BOGUS'']) ''createdAt'' = None
   \<and> mock_instrument 0 0 ''id'' = Some (JNum 1)
   \<and> mock_instrument 0 0 ''createdAt'' = Some (JIso 0)
   \<and> \<not> valid_payload (mock_instrument 0 0 ++ [''measurementType'' \<mapsto> JStr ''BOGUS''])"
  by (simp add: updateInstrument_def mock_instrument_def valid_payload_def one_of_def)

text \<open>
  C6, amended. For every id and every set of supplied fields, \<open>updateInstrument\<close> puts
  the fields to the server and returns the server's record when the request succeeds.
  When the request fails with \<open>ERR_NETWORK\<close> or status 404 it returns a record made of
  the id, the supplied fields as given and a fresh \<open>updatedAt\<close>: a field that was not
  supplied, \<open>createdAt\<close> included, is absent from it, nothing is validated and nothing is
  merged onto an existing record. Any other failure, such as a rejection with status
  400, is passed on as the error.
\<close>

theorem updateInstrument_result:
  "(case put (case variables ''id'' of None \<Rightarrow> JUndefined | Some v \<Rightarrow> v) (variables(''id'' := None)) of
      resolved data \<Rightarrow> updateInstrument put now variables = Inr data
    | rejected error \<Rightarrow>
        if code error = Some ''ERR_NETWORK'' \<or> response_status error = Some 404
        then \<exists>r. updateInstrument put now variables = Inr r
               \<and> r ''id'' = Some (case variables ''id'' of None \<Rightarrow> JUndefined | Some v \<Rightarrow> v)
               \<and> r ''updatedAt'' = Some (JIso now)
               \<and> (\<forall>k. k \<noteq> ''id'' \<and> k \<noteq> ''updatedAt'' \<longrightarrow> r k = variables k)
        else updateInstrument put now variables = Inl error)"
proof (cases "put (case variables ''id'' of None \<Rightarrow> JUndefined | Some v \<Rightarrow> v) (variables(''id'' := None))")
  case (resolved data)
  then show ?thesis by (simp add: updateInstrument_def)
next
  case (rejected error)
  show ?thesis
  proof (cases "code error = Some ''ERR_NETWORK'' \<or> response_status error = Some 404")
    case True
    have "updateInstrument put now variables =
        Inr ([''id'' \<mapsto> (case variables ''id'' of None \<Rightarrow> JUndefined | Some v \<Rightarrow> v)]
             ++ variables(''id'' := None) ++ [''updatedAt'' \<mapsto> JIso now])"
      using rejected True by (rule updateInstrument_fallback)
    then show ?thesis using rejected True
      by (simp add: update_record_lookup del: map_add_upd)
  next
    case False
    then show ?thesis using rejected by (simp add: updateInstrument_def)
  qed
qed

theorem updateInstrument_result_witness:
  "(\<exists>r. updateInstrument (\<lambda>ident data. rejected \<lparr>code = Some ''ERR_NETWORK'', response_status = None\<rparr>)
        1000 [''id'' \<mapsto> JNum 1, ''name'' \<mapsto> JStr ''DMM1''] = Inr r
      \<and> r ''id'' = Some (JNum 1) \<and> r ''updatedAt'' = Some (JIso 1000)
      \<and> r ''name'' = Some (JStr ''DMM1'') \<and> r ''createdAt'' = None)
   \<and> updateInstrument (\<lambda>ident data. rejected \<lparr>code = Some ''ERR_BAD_REQUEST'', response_status = Some 400\<rparr>)
        1000 [''id'' \<mapsto> JNum 1, ''name'' \<mapsto> JStr ''DMM1'']
      = Inl \<lparr>code = Some ''ERR_BAD_REQUEST'', response_status = Some 400\<rparr>"
proof -
  let ?vars = "[''id'' \<mapsto> JNum 1, ''name'' \<mapsto> JStr ''DMM1'']"
  let ?down = "\<lambda>(ident::jsvalue) (data::jsobject).
      rejected \<lparr>code = Some ''ERR_NETWORK'', response_status = None\<rparr> :: jsobject promise"
  let ?refuse = "\<lambda>(ident::jsvalue) (data::jsobject).
      rejected \<lparr>code = Some ''ERR_BAD_REQUEST'', response_status = Some 400\<rparr> :: jsobject promise"
  have "\<exists>r. updateInstrument ?down 1000 ?vars = Inr r
      \<and> r ''id'' = Some (JNum 1) \<and> r ''updatedAt'' = Some (JIso 1000)
      \<and> (\<forall>k. k \<noteq> ''id'' \<and> k \<noteq> ''updatedAt'' \<longrightarrow> r k = ?vars k)"
    using updateInstrument_result [where put = ?down and variables = ?vars and now = 1000]
    by simp
  then obtain r where r: "updateInstrument ?down 1000 ?vars = Inr r"
      "r ''id'' = Some (JNum 1)" "r ''updatedAt'' = Some (JIso 1000)"
      "\<forall>k. k \<noteq> ''id'' \<and> k \<noteq> ''updatedAt'' \<longrightarrow> r k = ?vars k"
    by blast
  have "r ''name'' = Some (JStr ''DMM1'')" using r(4) [rule_format, of "''name''"] by simp
  moreover have "r ''createdAt'' = None" using r(4) [rule_format, of "''createdAt''"] by simp
  moreover have "updateInstrument ?refuse 1000 ?vars
      = Inl \<lparr>code = Some ''ERR_BAD_REQUEST'', response_status = Some 400\<rparr>"
    using updateInstrument_result [where put = ?refuse and variables = ?vars and now = 1000]
    by simp
  ultimately show ?thesis using r(1,2,3) by blast
qed

text \<open>
  C7 does not hold of the code. The fallback of create stamps \<open>createdAt\<close> and
  \<open>updatedAt\<close> with the time of the creation, but reads the clock once for each: for the
  valid payload the form sends once a name is entered, with the server unreachable and
  the clock advancing by a millisecond between the two readings, the record returned has
  the payload's user-supplied fields and a \<open>createdAt\<close> different from its
  \<open>updatedAt\<close>.
\<close>

theorem create_timestamps_differ:
  "valid_payload (formData(''name'' \<mapsto> JStr ''DMM1''))
   \<and> \<not> isl (addInstrument (\<lambda>data. rejected \<lparr>code = Some ''ERR_NETWORK'', response_status = None\<rparr>)
        1000 1000 1001 (formData(''name'' \<mapsto> JStr ''DMM1'')))
   \<and> projr (addInstrument (\<lambda>data. rejected \<lparr>code = Some ''ERR_NETWORK'', response_status = None\<rparr>)
        1000 1000 1001 (formData(''name'' \<mapsto> JStr ''DMM1''))) ''name'' = Some (JStr ''DMM1'')
   \<and> projr (addInstrument (\<lambda>data. rejected \<lparr>code = Some ''ERR_NETWORK'', response_status = None\<rparr>)
        1000 1000 1001 (formData(''name'' \<mapsto> JStr ''DMM1''))) ''gpibAddress'' = Some (JStr ''22'')
   \<and> projr (addInstrument (\<lambda>data. rejected \<lparr>code = Some ''ERR_NETWORK'', response_status = None\<rparr>)
        1000 1000 1001 (formData(''name'' \<mapsto> JStr ''DMM1''))) ''createdAt'' = Some (JIso 1000)
   \<and> projr (addInstrument (\<lambda>data. rejected \<lparr>code = Some ''ERR_NETWORK'', response_status = None\<rparr>)
        1000 1000 1001 (formData(''name'' \<mapsto> JStr ''DMM1''))) ''updatedAt'' = Some (JIso 1001)
   \<and> projr (addInstrument (\<lambda>data. rejected \<lparr>code = Some ''ERR_NETWORK'', response_status = None\<rparr>)
        1000 1000 1001 (formData(''name'' \<mapsto> JStr ''DMM1''))) ''createdAt''
     \<noteq> projr (addInstrument (\<lambda>data. rejected \<lparr>code = Some ''ERR_NETWORK'', response_status = None\<rparr>)
        1000 1000 1001 (formData(''name'' \<mapsto> JStr ''DMM1''))) ''updatedAt''"
proof -
  have "digits_value ''22'' = 22" by (simp add: digits_value_def digit_value_def)
  then have "gpibAddress_valid (Some (JStr ''22''))"
    by (simp add: gpibAddress_valid_def digits_small digits_large)
  then have "valid_payload (formData(''name'' \<mapsto> JStr ''DMM1''))"
    by (simp add: valid_payload_def one_of_def formData_def)
  then show ?thesis
    by (simp add: addInstrument_def formData_def)
qed

text \<open>
  C8, as stated, fails: a panel mounted with \<open>Math.random()\<close> returning 0.5 is Connected
  once its effect has run, and no connect has been applied.
\<close>

theorem mount_counterexample:
  "mount [1 / 2, 1 / 2] = Some (useState_initial\<lparr>isConnected := True\<rparr>)"
  by (simp add: mount_def useState_initial_def)

text \<open>
  C8, amended. The session is Disconnected in the state the panel is created in. The
  effect that runs on mount then replaces the session state by a simulated one, Connected
  exactly when a value of \<open>Math.random()\<close> exceeds 0.3, and changes nothing else: when
  the first two values fall on the same side of 0.3 the panel settles in the state they
  give. The session is in one of the two states Connected and Disconnected throughout.
\<close>

theorem session_after_mount:
  "\<not> isConnected useState_initial
   \<and> (mount rs = Some q \<longrightarrow>
        q = useState_initial\<lparr>isConnected := isConnected q\<rparr>
        \<and> (\<exists>random \<in> set rs. isConnected q = (random > 3 / 10)))
   \<and> ((r1 > 3 / 10) = (r2 > 3 / 10) \<longrightarrow>
        mount (r1 # r2 # rs') = Some (useState_initial\<lparr>isConnected := (r1 > 3 / 10)\<rparr>))"
proof (intro conjI impI)
  show "\<not> isConnected useState_initial" by (simp add: useState_initial_def)
next
  assume "mount rs = Some q"
  then have "useEffect_run rs useState_initial = Some q" by (simp add: mount_def)
  from useEffect_run_result [OF this]
  show "q = useState_initial\<lparr>isConnected := isConnected q\<rparr>"
    and "\<exists>random \<in> set rs. isConnected q = (random > 3 / 10)" by blast+
next
  assume "(r1 > 3 / 10) = (r2 > 3 / 10)"
  then show "mount (r1 # r2 # rs') = Some (useState_initial\<lparr>isConnected := (r1 > 3 / 10)\<rparr>)"
    unfolding mount_def by (rule useEffect_run_settles)
qed

theorem session_after_mount_witness:
  "mount [1 / 5] = Some useState_initial
   \<and> mount [9 / 10, 4 / 10, 1 / 10] = Some (useState_initial\<lparr>isConnected := True\<rparr>)
   \<and> (\<exists>random \<in> set [9 / 10, 4 / 10, 1 / 10 :: rat]. random > 3 / 10)"
  using session_after_mount [of "[9 / 10, 4 / 10, 1 / 10]" "useState_initial\<lparr>isConnected := True\<rparr>" "9 / 10" "4 / 10" "[1 / 10]"]
  by (simp add: mount_def useState_initial_def)

text \<open>
  C9, as stated, fails: when the payload itself has an \<open>id\<close> property, the record
  synthesized by \<open>addInstrument\<close> keeps that id, not the current time.
\<close>

theorem payload_id_counterexample:
  "\<not> isl (addInstrument (\<lambda>data. rejected \<lparr>code = Some ''ERR_NETWORK'', response_status = None\<rparr>)
        1000 1000 1000 (formData(''id'' \<mapsto> JNum 7)))
   \<and> projr (addInstrument (\<lambda>data. rejected \<lparr>code = Some ''ERR_NETWORK'', response_status = None\<rparr>)
        1000 1000 1000 (formData(''id'' \<mapsto> JNum 7))) ''id'' = Some (JNum 7)
   \<and> projr (addInstrument (\<lambda>data. rejected \<lparr>code = Some ''ERR_NETWORK'', response_status = None\<rparr>)
        1000 1000 1000 (formData(''id'' \<mapsto> JNum 7))) ''id'' \<noteq> Some (JNum (of_int 1000))"
  by (simp add: addInstrument_def formData_def)

text \<open>
  C9, amended. When the request fails with \<open>ERR_NETWORK\<close> or status 404, each of the
  three operations reports success: \<open>addInstrument\<close> returns the payload with
  \<open>createdAt\<close> and \<open>updatedAt\<close> set to the current time and with the current time as
  id unless the payload has an id of its own, which it then keeps; \<open>updateInstrument\<close>
  returns the supplied fields with the id and a refreshed \<open>updatedAt\<close>, and no
  \<open>createdAt\<close> but a supplied one; \<open>deleteInstrument\<close> returns the requested id.
  Every other error is passed on to the caller.
\<close>

theorem demo_fallback:
  assumes "post instrumentData = rejected error"
    and "put (case variables ''id'' of None \<Rightarrow> JUndefined | Some v \<Rightarrow> v) (variables(''id'' := None))
      = rejected error"
    and "delete ident = rejected error"
  shows "if code error = Some ''ERR_NETWORK'' \<or> response_status error = Some 404
     then (\<exists>r. addInstrument post now_id now_created now_updated instrumentData = Inr r
            \<and> r ''id'' = Some (case instrumentData ''id'' of None \<Rightarrow> JNum (of_int now_id) | Some v \<Rightarrow> v)
            \<and> r ''createdAt'' = Some (JIso now_created)
            \<and> r ''updatedAt'' = Some (JIso now_updated)
            \<and> (\<forall>k. k \<noteq> ''id'' \<and> k \<noteq> ''createdAt'' \<and> k \<noteq> ''updatedAt''
                  \<longrightarrow> r k = instrumentData k))
        \<and> (\<exists>r. updateInstrument put now variables = Inr r
            \<and> r ''id'' = Some (case variables ''id'' of None \<Rightarrow> JUndefined | Some v \<Rightarrow> v)
            \<and> r ''updatedAt'' = Some (JIso now)
            \<and> (\<forall>k. k \<noteq> ''id'' \<and> k \<noteq> ''updatedAt'' \<longrightarrow> r k = variables k))
        \<and> deleteInstrument delete ident = Inr ident
     else addInstrument post now_id now_created now_updated instrumentData = Inl error
        \<and> updateInstrument put now variables = Inl error
        \<and> deleteInstrument delete ident = Inl error"
proof (cases "code error = Some ''ERR_NETWORK'' \<or> response_status error = Some 404")
  case True
  have "addInstrument post now_id now_created now_updated instrumentData =
      Inr ([''id'' \<mapsto> JNum (of_int now_id)] ++ instrumentData
           ++ [''createdAt'' \<mapsto> JIso now_created, ''updatedAt'' \<mapsto> JIso now_updated])"
    using assms(1) True by (rule addInstrument_fallback)
  then have a: "\<exists>r. addInstrument post now_id now_created now_updated instrumentData = Inr r
            \<and> r ''id'' = Some (case instrumentData ''id'' of None \<Rightarrow> JNum (of_int now_id) | Some v \<Rightarrow> v)
            \<and> r ''createdAt'' = Some (JIso now_created)
            \<and> r ''updatedAt'' = Some (JIso now_updated)
            \<and> (\<forall>k. k \<noteq> ''id'' \<and> k \<noteq> ''createdAt'' \<and> k \<noteq> ''updatedAt''
                  \<longrightarrow> r k = instrumentData k)"
    by (simp add: fallback_record_lookup del: map_add_upd split: option.split)
  have "updateInstrument put now variables =
      Inr ([''id'' \<mapsto> (case variables ''id'' of None \<Rightarrow> JUndefined | Some v \<Rightarrow> v)]
           ++ variables(''id'' := None) ++ [''updatedAt'' \<mapsto> JIso now])"
    using assms(2) True by (rule updateInstrument_fallback)
  then have u: "\<exists>r. updateInstrument put now variables = Inr r
            \<and> r ''id'' = Some (case variables ''id'' of None \<Rightarrow> JUndefined | Some v \<Rightarrow> v)
            \<and> r ''updatedAt'' = Some (JIso now)
            \<and> (\<forall>k. k \<noteq> ''id'' \<and> k \<noteq> ''updatedAt'' \<longrightarrow> r k = variables k)"
    by (simp add: update_record_lookup del: map_add_upd)
  have d: "deleteInstrument delete ident = Inr ident"
    using assms(3) True by (simp add: deleteInstrument_def)
  show ?thesis using True a u d by (simp only: if_True simp_thms)
next
  case False
  have "addInstrument post now_id now_created now_updated instrumentData = Inl error"
    using assms(1) False by (simp add: addInstrument_def)
  moreover have "updateInstrument put now variables = Inl error"
    using assms(2) False by (simp add: updateInstrument_def)
  moreover have "deleteInstrument delete ident = Inl error"
    using assms(3) False by (simp add: deleteInstrument_def)
  ultimately show ?thesis using False by (simp only: if_False simp_thms)
qed

theorem demo_fallback_witness:
  "(\<exists>r. addInstrument (\<lambda>data. rejected \<lparr>code = Some ''ERR_NETWORK'', response_status = None\<rparr>)
        1000 1001 1002 formData = Inr r
      \<and> r ''id'' = Some (JNum 1000) \<and> r ''createdAt'' = Some (JIso 1001)
      \<and> r ''updatedAt'' = Some (JIso 1002))
   \<and> (\<exists>r. updateInstrument (\<lambda>ident data. rejected \<lparr>code = Some ''ERR_NETWORK'', response_status = None\<rparr>)
        1003 (formData(''id'' \<mapsto> JNum 1)) = Inr r
      \<and> r ''id'' = Some (JNum 1) \<and> r ''updatedAt'' = Some (JIso 1003))
   \<and> deleteInstrument (\<lambda>ident. rejected \<lparr>code = Some ''ERR_NETWORK'', response_status = None\<rparr> :: unit promise)
        (JNum 1) = Inr (JNum 1)
   \<and> addInstrument (\<lambda>data. rejected \<lparr>code = Some ''ERR_BAD_RESPONSE'', response_status = Some 500\<rparr>)
        1000 1001 1002 formData
      = Inl \<lparr>code = Some ''ERR_BAD_RESPONSE'', response_status = Some 500\<rparr>"
proof -
  let ?e = "\<lparr>code = Some ''ERR_NETWORK'', response_status = None\<rparr>"
  let ?post = "\<lambda>data::jsobject. rejected ?e :: jsobject promise"
  let ?put = "\<lambda>(ident::jsvalue) (data::jsobject). rejected ?e :: jsobject promise"
  let ?delete = "\<lambda>ident::jsvalue. rejected ?e :: unit promise"
  have h: "?post formData = rejected ?e"
      "?put (case (formData(''id'' \<mapsto> JNum 1)) ''id'' of None \<Rightarrow> JUndefined | Some v \<Rightarrow> v)
         ((formData(''id'' \<mapsto> JNum 1))(''id'' := None)) = rejected ?e"
      "?delete (JNum 1) = rejected ?e"
    by simp_all
  have i: "formData ''id'' = None" by (simp add: formData_def)
  have "(\<exists>r. addInstrument ?post 1000 1001 1002 formData = Inr r
          \<and> r ''id'' = Some (JNum 1000) \<and> r ''createdAt'' = Some (JIso 1001)
          \<and> r ''updatedAt'' = Some (JIso 1002)
          \<and> (\<forall>k. k \<noteq> ''id'' \<and> k \<noteq> ''createdAt'' \<and> k \<noteq> ''updatedAt'' \<longrightarrow> r k = formData k))
      \<and> (\<exists>r. updateInstrument ?put 1003 (formData(''id'' \<mapsto> JNum 1)) = Inr r
          \<and> r ''id'' = Some (JNum 1) \<and> r ''updatedAt'' = Some (JIso 1003)
          \<and> (\<forall>k. k \<noteq> ''id'' \<and> k \<noteq> ''updatedAt'' \<longrightarrow> r k = formData k))
      \<and> deleteInstrument ?delete (JNum 1) = Inr (JNum 1)"
    using demo_fallback [of ?post formData ?e ?put "formData(''id'' \<mapsto> JNum 1)" ?delete "JNum 1"
        1000 1001 1002 1003, OF h]
    by (simp add: i)
  moreover have "addInstrument (\<lambda>data. rejected \<lparr>code = Some ''ERR_BAD_RESPONSE'', response_status = Some 500\<rparr>)
        1000 1001 1002 formData
      = Inl \<lparr>code = Some ''ERR_BAD_RESPONSE'', response_status = Some 500\<rparr>"
    using demo_fallback [of "\<lambda>data. rejected \<lparr>code = Some ''ERR_BAD_RESPONSE'', response_status = Some 500\<rparr>"
        formData "\<lparr>code = Some ''ERR_BAD_RESPONSE'', response_status = Some 500\<rparr>"
        "\<lambda>ident data. rejected \<lparr>code = Some ''ERR_BAD_RESPONSE'', response_status = Some 500\<rparr>"
        formData
        "\<lambda>ident. rejected \<lparr>code = Some ''ERR_BAD_RESPONSE'', response_status = Some 500\<rparr> :: unit promise"
        "JNum 1" 1000 1001 1002 1003]
    by simp
  ultimately show ?thesis by blast
qed

text \<open>
  C10, as stated, fails: with \<open>Math.random()\<close> returning the double \<open>1 - 2^-20\<close>, the
  reading is 9.99999..., and both the measure action and the periodic refresh show
  "10.000", which is not below 10.
\<close>

theorem reading_counterexample:
  "is_double (1 - 1 / 2 ^ 20) \<and> 0 \<le> (1 - 1 / 2 ^ 20 :: rat) \<and> (1 - 1 / 2 ^ 20 :: rat) < 1
   \<and> currentValue (fst (handleMeasure (mock_instrument 0 0) (1 - 1 / 2 ^ 20)
        (useState_initial\<lparr>isConnected := True\<rparr>))) = ''10.000''
   \<and> currentValue (interval_callback (mock_instrument 0 0) (1 - 1 / 2 ^ 20)
        (useState_initial\<lparr>isConnected := True\<rparr>)) = ''10.000''
   \<and> \<not> numeral_value ''10.000'' < 10"
proof -
  have i: "is_double (1 - 1 / 2 ^ 20)" by (simp add: double_eval)
  have d: "double_round (5242875 / 524288) = 5242875 / 524288" by (simp add: double_eval)
  have t: "toFixed 3 (5242875 / 524288) = ''10.000''" by (simp add: toFixed_eval)
  have v: "numeral_value ''10.000'' = 10"
    by (simp add: numeral_value_def digits_value_def digit_value_def)
  have m: "currentValue (fst (handleMeasure (mock_instrument 0 0) (1 - 1 / 2 ^ 20)
        (useState_initial\<lparr>isConnected := True\<rparr>))) = ''10.000''"
    by (simp add: handleMeasure_def useState_initial_def d t)
  have c: "currentValue (interval_callback (mock_instrument 0 0) (1 - 1 / 2 ^ 20)
        (useState_initial\<lparr>isConnected := True\<rparr>)) = ''10.000''"
    by (simp add: interval_callback_def useState_initial_def d t)
  have n: "\<not> numeral_value ''10.000'' < 10" by (simp add: v)
  have r: "0 \<le> (1 - 1 / 2 ^ 20 :: rat)" "(1 - 1 / 2 ^ 20 :: rat) < 1" by simp_all
  show ?thesis using i r m c n by blast
qed

text \<open>
  C10, amended. For every value \<open>Math.random()\<close> can return, a double in \<open>[0, 1)\<close>:
  while connected, the measure action and the periodic refresh both store the reading,
  the double product \<open>Math.random() * 10\<close>, which lies in \<open>[0, 10)\<close>, formatted with
  exactly three decimal places; the number shown is within half a thousandth of the
  reading and lies in the closed interval \<open>[0, 10]\<close>. The result is the same for every
  instrument, whatever its measurement type, range and resolution. While disconnected, a
  measure action leaves the value shown unchanged, and so does the refresh.
\<close>

theorem reading_three_decimals:
  assumes "is_double random" "0 \<le> random" "random < 1"
  shows "(if isConnected p
          then currentValue (fst (handleMeasure instrument random p))
                 = toFixed 3 (double_round (random * 10))
             \<and> currentValue (interval_callback instrument random p)
                 = toFixed 3 (double_round (random * 10))
          else currentValue (fst (handleMeasure instrument random p)) = currentValue p
             \<and> interval_callback instrument random p = p)
     \<and> handleMeasure instrument random p = handleMeasure instrument' random p
     \<and> interval_callback instrument random p = interval_callback instrument' random p
     \<and> 0 \<le> double_round (random * 10) \<and> double_round (random * 10) < 10
     \<and> (\<exists>a b. toFixed 3 (double_round (random * 10)) = a @ ''.'' @ b \<and> a \<noteq> [] \<and> length b = 3
           \<and> set (a @ b) \<subseteq> set ''0123456789'')
     \<and> 0 \<le> numeral_value (toFixed 3 (double_round (random * 10)))
     \<and> numeral_value (toFixed 3 (double_round (random * 10))) \<le> 10
     \<and> \<bar>numeral_value (toFixed 3 (double_round (random * 10))) - double_round (random * 10)\<bar>
         \<le> 1 / 2000"
proof -
  have "if isConnected p
          then currentValue (fst (handleMeasure instrument random p))
                 = toFixed 3 (double_round (random * 10))
             \<and> currentValue (interval_callback instrument random p)
                 = toFixed 3 (double_round (random * 10))
          else currentValue (fst (handleMeasure instrument random p)) = currentValue p
             \<and> interval_callback instrument random p = p"
    by (simp add: handleMeasure_def interval_callback_def)
  moreover have "handleMeasure instrument random p = handleMeasure instrument' random p"
    by (simp add: handleMeasure_def)
  moreover have "interval_callback instrument random p = interval_callback instrument' random p"
    by (simp add: interval_callback_def)
  moreover have x: "0 \<le> double_round (random * 10)" "double_round (random * 10) < 10"
    using assms by (rule Math_random_times_10)+
  ultimately show ?thesis using formatted_reading [OF x] by blast
qed

theorem reading_three_decimals_witness:
  "is_double (2448832297382707 / 2 ^ 52)
   \<and> 0 \<le> (2448832297382707 / 2 ^ 52 :: rat) \<and> (2448832297382707 / 2 ^ 52 :: rat) < 1
   \<and> currentValue (fst (handleMeasure (mock_instrument 0 0) (2448832297382707 / 2 ^ 52)
        (useState_initial\<lparr>isConnected := True\<rparr>))) = ''5.438''
   \<and> currentValue (fst (handleMeasure (mock_instrument 0 0) (2448832297382707 / 2 ^ 52)
        useState_initial)) = ''0.000''
   \<and> double_round (2448832297382707 / 2 ^ 52 * 10) < 10"
proof -
  have h: "is_double (2448832297382707 / 2 ^ 52)" "0 \<le> (2448832297382707 / 2 ^ 52 :: rat)"
      "(2448832297382707 / 2 ^ 52 :: rat) < 1"
    by (simp_all add: double_eval)
  have d: "double_round (2448832297382707 / 2 ^ 52 * 10) = 87 / 16" by (simp add: double_eval)
  have t: "toFixed 3 (87 / 16) = ''5.438''" by (simp add: toFixed_eval)
  have a: "currentValue (fst (handleMeasure (mock_instrument 0 0) (2448832297382707 / 2 ^ 52)
        (useState_initial\<lparr>isConnected := True\<rparr>))) = ''5.438''"
    using reading_three_decimals [OF h, where p = "useState_initial\<lparr>isConnected := True\<rparr>"
          and instrument = "mock_instrument 0 0" and instrument' = "mock_instrument 0 0"]
    by (simp only: d t) simp
  have b: "currentValue (fst (handleMeasure (mock_instrument 0 0) (2448832297382707 / 2 ^ 52)
        useState_initial)) = ''0.000''
      \<and> double_round (2448832297382707 / 2 ^ 52 * 10) < 10"
    using reading_three_decimals [OF h, where p = useState_initial
          and instrument = "mock_instrument 0 0" and instrument' = "mock_instrument 0 0"]
    by (simp add: useState_initial_def)
  show ?thesis using h a b by simp
qed

end
